theory Spec2Isabelle
  imports Complex_Main
begin

section \<open>Python values\<close>

text \<open>
  The transforms of \<^verbatim>\<open>src/datasets/utils/transforms.py\<close> work on a clip, a Python list
  of frames. A frame is a \<^verbatim>\<open>numpy.ndarray\<close>, a \<^verbatim>\<open>PIL.Image.Image\<close>, or some other
  object; every transform decides what to do by \<^verbatim>\<open>isinstance\<close> on \<^verbatim>\<open>clip[0]\<close>.
  Exceptions are values: a call returns \<open>Inl\<close> of the exception class, or \<open>Inr\<close> of
  its result.
\<close>

datatype py_error = IndexError | TypeError | ValueError | AssertionError | AttributeError

text \<open>
  An array is its shape and its elements, read by an index list of the shape's length.
  Elements are real numbers: pixel values are integers or floats in the source, and the
  rounding of floating-point division is not modelled.
\<close>

record ndarray =
  shape :: "nat list"
  item :: "nat list \<Rightarrow> real"

text \<open>\<^verbatim>\<open>np.zeros(shape)\<close>\<close>

definition np_zeros :: "nat list \<Rightarrow> ndarray" where
  "np_zeros shp = \<lparr>shape = shp, item = (\<lambda>i. 0)\<rparr>"

text \<open>
  \<^verbatim>\<open>np.array(rows)\<close> of a nested list of rows, of pixels, of channel values, all rows of
  one length and all pixels of one length: the lengths are read off the first row and
  its first pixel.
\<close>

definition np_array :: "real list list list \<Rightarrow> ndarray" where
  "np_array rows =
     \<lparr>shape = [length rows, length (concat (take 1 rows)),
               length (concat (take 1 (concat (take 1 rows))))],
      item = (\<lambda>i. rows ! (i ! 0) ! (i ! 1) ! (i ! 2))\<rparr>"

text \<open>
  An image object: \<^verbatim>\<open>.size\<close> is (width, height); a pixel is read at (x, y), band by band.
\<close>

record pil_image =
  size_pil :: "nat \<times> nat"
  bands :: nat
  getpixel :: "nat \<Rightarrow> nat \<Rightarrow> nat \<Rightarrow> real"

datatype frame = NdArray ndarray | PILImage pil_image | OtherObject

text \<open>
  \<^verbatim>\<open>np.array(img)\<close> of an image object: height by width by bands, and only height by
  width for an image of one band.
\<close>

definition np_array_of_image :: "pil_image \<Rightarrow> ndarray" where
  "np_array_of_image p =
     (let (w, h) = size_pil p in
      if bands p = 1
      then \<lparr>shape = [h, w], item = (\<lambda>i. getpixel p (i ! 1) (i ! 0) 0)\<rparr>
      else \<lparr>shape = [h, w, bands p], item = (\<lambda>i. getpixel p (i ! 1) (i ! 0) (i ! 2))\<rparr>)"

text \<open>
  A list comprehension \<^verbatim>\<open>[f(img) for img in clip]\<close>: the first call that raises ends it.
\<close>

fun map_frames :: "('a \<Rightarrow> py_error + 'b) \<Rightarrow> 'a list \<Rightarrow> py_error + 'b list" where
  "map_frames f [] = Inr []"
| "map_frames f (img # rest) =
     (case f img of
        Inl e \<Rightarrow> Inl e
      | Inr y \<Rightarrow> (case map_frames f rest of Inl e \<Rightarrow> Inl e | Inr ys \<Rightarrow> Inr (y # ys)))"

section \<open>The global random generator\<close>

text \<open>
  \<^verbatim>\<open>random.random()\<close> and \<^verbatim>\<open>random.randint(a, b)\<close> read the process-wide generator.
  Its state is a tape of raw draws and the number of draws made so far; each call
  consumes one. \<^verbatim>\<open>random()\<close> returns a multiple of \<open>2\<^sup>-\<^sup>5\<^sup>3\<close> in \<open>[0, 1)\<close>;
  \<^verbatim>\<open>randint(a, b)\<close> returns an integer of \<open>[a, b]\<close> and raises ValueError on an empty
  range.
\<close>

record random_state =
  tape :: "nat \<Rightarrow> nat"
  pos :: nat

definition random_random :: "random_state \<Rightarrow> real \<times> random_state" where
  "random_random g =
     (real (tape g (pos g) mod 2 ^ 53) / 2 ^ 53, g\<lparr>pos := pos g + 1\<rparr>)"

definition random_randint :: "int \<Rightarrow> int \<Rightarrow> random_state \<Rightarrow> (py_error + int) \<times> random_state" where
  "random_randint a b g =
     (if b < a then (Inl ValueError, g)
      else (Inr (a + int (tape g (pos g) mod nat (b - a + 1))), g\<lparr>pos := pos g + 1\<rparr>))"

text \<open>
  \<^verbatim>\<open>random.seed\<close>: a generator at its start, whose raw draws are \<open>r\<close>, \<open>r + 1\<close>, ...
\<close>

definition seeded :: "nat \<Rightarrow> random_state" where
  "seeded r = \<lparr>tape = (\<lambda>n. r + n), pos = 0\<rparr>"

section \<open>Compose\<close>

text \<open>
  A transform is called on a value with the generator's state, and returns its result
  or the exception raised, with the state it leaves.
  \<^verbatim>\<open>for t in self.transforms: clip = t(clip)\<close>
\<close>

type_synonym ('a, 's) transform = "'a \<Rightarrow> 's \<Rightarrow> (py_error + 'a) \<times> 's"

fun Compose_call :: "('a, 's) transform list \<Rightarrow> ('a, 's) transform" where
  "Compose_call [] clip s = (Inr clip, s)"
| "Compose_call (t # ts) clip s =
     (case t clip s of
        (Inl e, s') \<Rightarrow> (Inl e, s')
      | (Inr clip', s') \<Rightarrow> Compose_call ts clip' s')"

section \<open>ToTensor\<close>

record ToTensor =
  channel_nb :: nat

text \<open>\<^verbatim>\<open>img.transpose(2, 0, 1)\<close>: the axes must be those of the array.\<close>

definition convert_img :: "ndarray \<Rightarrow> py_error + ndarray" where
  "convert_img img =
     (case shape img of
        [d0, d1, d2] \<Rightarrow>
          Inr \<lparr>shape = [d2, d0, d1], item = (\<lambda>i. item img [i ! 1, i ! 2, i ! 0])\<rparr>
      | _ \<Rightarrow> Inl ValueError)"

text \<open>\<^verbatim>\<open>img[:, :, ::-1]\<close>: the third axis, read backwards.\<close>

definition reversed_axis2 :: "ndarray \<Rightarrow> py_error + ndarray" where
  "reversed_axis2 a =
     (if length (shape a) < 3 then Inl IndexError
      else Inr (a\<lparr>item := (\<lambda>i. item a (i[2 := shape a ! 2 - 1 - i ! 2]))\<rparr>))"

text \<open>
  \<^verbatim>\<open>np_clip[:, img_idx, :, :] = src\<close>: the source is broadcast to the slice, an axis of
  length one being repeated; any other difference of shape raises ValueError.
\<close>

definition setitem_frame :: "ndarray \<Rightarrow> nat \<Rightarrow> ndarray \<Rightarrow> py_error + ndarray" where
  "setitem_frame np_clip img_idx src =
     (case shape np_clip of
        [c, t, h, w] \<Rightarrow>
          if t \<le> img_idx then Inl IndexError
          else (case shape src of
            [c', h', w'] \<Rightarrow>
              if (c' = c \<or> c' = 1) \<and> (h' = h \<or> h' = 1) \<and> (w' = w \<or> w' = 1)
              then Inr (np_clip\<lparr>item := (\<lambda>i.
                     if i ! 1 = img_idx
                     then item src [if c' = 1 then 0 else i ! 0,
                                    if h' = 1 then 0 else i ! 2,
                                    if w' = 1 then 0 else i ! 3]
                     else item np_clip i)\<rparr>)
              else Inl ValueError
          | _ \<Rightarrow> Inl ValueError)
      | _ \<Rightarrow> Inl IndexError)"

text \<open>
  The body of the loop \<^verbatim>\<open>for img_idx, img in enumerate(clip)\<close>: the frame as an array,
  \<^verbatim>\<open>convert_img\<close>, and the assignment of \<^verbatim>\<open>img[:, :, ::-1]\<close> to the frame's place in the
  buffer.
\<close>

definition store_frame :: "ndarray \<Rightarrow> nat \<Rightarrow> frame \<Rightarrow> py_error + ndarray" where
  "store_frame np_clip img_idx img =
     (case (case img of
              NdArray a \<Rightarrow> Inr a
            | PILImage p \<Rightarrow> Inr (np_array_of_image p)
            | OtherObject \<Rightarrow> Inl TypeError) of
        Inl e \<Rightarrow> Inl e
      | Inr a \<Rightarrow>
          (case convert_img a of
             Inl e \<Rightarrow> Inl e
           | Inr chw \<Rightarrow>
               (case reversed_axis2 chw of
                  Inl e \<Rightarrow> Inl e
                | Inr src \<Rightarrow> setitem_frame np_clip img_idx src)))"

fun fill_clip :: "ndarray \<Rightarrow> nat \<Rightarrow> frame list \<Rightarrow> py_error + ndarray" where
  "fill_clip np_clip img_idx [] = Inr np_clip"
| "fill_clip np_clip img_idx (img # rest) =
     (case store_frame np_clip img_idx img of
        Inl e \<Rightarrow> Inl e
      | Inr np_clip' \<Rightarrow> fill_clip np_clip' (Suc img_idx) rest)"

text \<open>\<^verbatim>\<open>tensor_clip.float().div(255)\<close>\<close>

definition tensor_div :: "ndarray \<Rightarrow> real \<Rightarrow> ndarray" where
  "tensor_div t d = t\<lparr>item := (\<lambda>i. item t i / d)\<rparr>"

definition ToTensor_call :: "ToTensor \<Rightarrow> frame list \<Rightarrow> py_error + ndarray" where
  "ToTensor_call self clip =
     (case clip of
        [] \<Rightarrow> Inl IndexError
      | first # _ \<Rightarrow>
          (case (case first of
                   NdArray a \<Rightarrow>
                     (case shape a of
                        [h, w, c] \<Rightarrow>
                          if c = channel_nb self then Inr (h, w) else Inl AssertionError
                      | _ \<Rightarrow> Inl ValueError)
                 | PILImage p \<Rightarrow> Inr (snd (size_pil p), fst (size_pil p))
                 | OtherObject \<Rightarrow> Inl TypeError) of
             Inl e \<Rightarrow> Inl e
           | Inr (h, w) \<Rightarrow>
               (case fill_clip (np_zeros [channel_nb self, length clip, h, w]) 0 clip of
                  Inl e \<Rightarrow> Inl e
                | Inr np_clip \<Rightarrow> Inr (tensor_div np_clip 255))))"

section \<open>RandomHorizontalFlip\<close>

text \<open>
  \<^verbatim>\<open>np.fliplr(img)\<close>: the second axis read backwards, of an array of two axes at least.
  An image object is read as an array first; an object that is no array has no axis.
\<close>

definition fliplr :: "ndarray \<Rightarrow> py_error + ndarray" where
  "fliplr a =
     (if length (shape a) < 2 then Inl ValueError
      else Inr (a\<lparr>item := (\<lambda>i. item a (i[1 := shape a ! 1 - 1 - i ! 1]))\<rparr>))"

fun np_fliplr :: "frame \<Rightarrow> py_error + frame" where
  "np_fliplr (NdArray a) = map_sum id NdArray (fliplr a)"
| "np_fliplr (PILImage p) = map_sum id NdArray (fliplr (np_array_of_image p))"
| "np_fliplr OtherObject = Inl ValueError"

text \<open>
  \<^verbatim>\<open>img.transpose(PIL.Image.FLIP_LEFT_RIGHT)\<close>: the image object's method mirrors the
  columns. The constant is 0, and an array's own \<^verbatim>\<open>transpose(0)\<close> accepts it only for an
  array of one axis; another object has no such method.
\<close>

definition FLIP_LEFT_RIGHT :: "pil_image \<Rightarrow> pil_image" where
  "FLIP_LEFT_RIGHT p = p\<lparr>getpixel := (\<lambda>x y b. getpixel p (fst (size_pil p) - 1 - x) y b)\<rparr>"

fun transpose_FLIP_LEFT_RIGHT :: "frame \<Rightarrow> py_error + frame" where
  "transpose_FLIP_LEFT_RIGHT (PILImage p) = Inr (PILImage (FLIP_LEFT_RIGHT p))"
| "transpose_FLIP_LEFT_RIGHT (NdArray a) =
     (if length (shape a) = 1 then Inr (NdArray a) else Inl ValueError)"
| "transpose_FLIP_LEFT_RIGHT OtherObject = Inl AttributeError"

definition RandomHorizontalFlip_call ::
  "frame list \<Rightarrow> random_state \<Rightarrow> (py_error + frame list) \<times> random_state" where
  "RandomHorizontalFlip_call clip g =
     (let (r, g') = random_random g in
      if r < 0.5 then
        (case clip of
           [] \<Rightarrow> (Inl IndexError, g')
         | first # _ \<Rightarrow>
             (case first of
                NdArray _ \<Rightarrow> (map_frames np_fliplr clip, g')
              | PILImage _ \<Rightarrow> (map_frames transpose_FLIP_LEFT_RIGHT clip, g')
              | OtherObject \<Rightarrow> (Inl TypeError, g')))
      else (Inr clip, g'))"

section \<open>Scale\<close>

text \<open>
  Resizing is the work of two libraries that are no part of this repository:
  \<^verbatim>\<open>cv2.resize(img, size, interpolation=...)\<close> and the frame's own method
  \<^verbatim>\<open>img.resize(size, filter)\<close>. They are parameters of the transform; what the
  transform decides is which of them is called, on which frames, with which filter.
\<close>

datatype cv2_interpolation = INTER_NEAREST | INTER_LINEAR

datatype pil_filter = NEAREST | BILINEAR

record resize_libraries =
  cv2_resize :: "frame \<Rightarrow> nat \<times> nat \<Rightarrow> cv2_interpolation \<Rightarrow> py_error + frame"
  resize_method :: "frame \<Rightarrow> nat \<times> nat \<Rightarrow> pil_filter \<Rightarrow> py_error + frame"

text \<open>\<^verbatim>\<open>self.size\<close> is handed to the library as it is.\<close>

record Scale =
  size_Scale :: "nat \<times> nat"
  interpolation :: string

definition Scale_call :: "resize_libraries \<Rightarrow> Scale \<Rightarrow> frame list \<Rightarrow> py_error + frame list" where
  "Scale_call lib self clip =
     (case clip of
        [] \<Rightarrow> Inl IndexError
      | first # _ \<Rightarrow>
          (case first of
             NdArray _ \<Rightarrow>
               (let np_inter =
                      (if interpolation self = ''bilinear'' then INTER_LINEAR else INTER_NEAREST)
                in map_frames (\<lambda>img. cv2_resize lib img (size_Scale self) np_inter) clip)
           | PILImage _ \<Rightarrow>
               (let pil_inter = (if interpolation self = ''bilinear'' then NEAREST else BILINEAR)
                in map_frames (\<lambda>img. resize_method lib img (size_Scale self) pil_inter) clip)
           | OtherObject \<Rightarrow> Inl TypeError))"

section \<open>RandomCrop\<close>

text \<open>
  \<^verbatim>\<open>self.size\<close> is the pair (h, w) of the requested height and width: natural numbers,
  as the lengths of a frame's axes are.
\<close>

record RandomCrop =
  size_RandomCrop :: "nat \<times> nat"

text \<open>
  \<^verbatim>\<open>img[y1:y1 + h, x1:x1 + w, :]\<close>: a slice stops at the end of its axis. An array of
  fewer than three axes has too many indices; an object that is no array has no
  subscript.
\<close>

fun crop_slice :: "nat \<Rightarrow> nat \<Rightarrow> nat \<Rightarrow> nat \<Rightarrow> frame \<Rightarrow> py_error + frame" where
  "crop_slice y1 h x1 w (NdArray a) =
     (case shape a of
        d0 # d1 # d2 # ds \<Rightarrow>
          Inr (NdArray
            \<lparr>shape = (min (y1 + h) d0 - min y1 d0) # (min (x1 + w) d1 - min x1 d1) # d2 # ds,
             item = (\<lambda>i. item a (i[0 := y1 + i ! 0, 1 := x1 + i ! 1]))\<rparr>)
      | _ \<Rightarrow> Inl IndexError)"
| "crop_slice y1 h x1 w (PILImage p) = Inl TypeError"
| "crop_slice y1 h x1 w OtherObject = Inl TypeError"

text \<open>
  \<^verbatim>\<open>img.crop((x1, y1, x2, y2))\<close>: the box's size is the result's; outside of the image
  the result is black. Only an image object has the method.
\<close>

fun crop_method :: "nat \<times> nat \<times> nat \<times> nat \<Rightarrow> frame \<Rightarrow> py_error + frame" where
  "crop_method (x1, y1, x2, y2) (PILImage p) =
     Inr (PILImage
       \<lparr>size_pil = (x2 - x1, y2 - y1), bands = bands p,
        getpixel = (\<lambda>x y b.
          if x1 + x < fst (size_pil p) \<and> y1 + y < snd (size_pil p)
          then getpixel p (x1 + x) (y1 + y) b else 0)\<rparr>)"
| "crop_method box (NdArray a) = Inl AttributeError"
| "crop_method box OtherObject = Inl AttributeError"

definition RandomCrop_call ::
  "RandomCrop \<Rightarrow> frame list \<Rightarrow> random_state \<Rightarrow> (py_error + frame list) \<times> random_state" where
  "RandomCrop_call self clip g =
     (let (h, w) = size_RandomCrop self in
      case clip of
        [] \<Rightarrow> (Inl IndexError, g)
      | first # _ \<Rightarrow>
          (case (case first of
                   NdArray a \<Rightarrow>
                     (case shape a of
                        [im_h, im_w, im_c] \<Rightarrow> Inr (im_h, im_w)
                      | _ \<Rightarrow> Inl ValueError)
                 | PILImage p \<Rightarrow> Inr (snd (size_pil p), fst (size_pil p))
                 | OtherObject \<Rightarrow> Inl TypeError) of
             Inl e \<Rightarrow> (Inl e, g)
           | Inr (im_h, im_w) \<Rightarrow>
               if w > im_w \<or> h > im_h then (Inl ValueError, g)
               else
                 (case random_randint 0 (int im_w - int w) g of
                    (Inl e, g1) \<Rightarrow> (Inl e, g1)
                  | (Inr x1, g1) \<Rightarrow>
                      (case random_randint 0 (int im_h - int h) g1 of
                         (Inl e, g2) \<Rightarrow> (Inl e, g2)
                       | (Inr y1, g2) \<Rightarrow>
                           (case first of
                              NdArray _ \<Rightarrow>
                                (map_frames (crop_slice (nat y1) h (nat x1) w) clip, g2)
                            | PILImage _ \<Rightarrow>
                                (map_frames
                                   (crop_method (nat x1, nat y1, nat x1 + w, nat y1 + h)) clip, g2)
                            | OtherObject \<Rightarrow> (Inl TypeError, g2))))))"

section \<open>Reading a frame\<close>

text \<open>
  What the transforms read of a frame of either representation: its height and width,
  as \<^verbatim>\<open>h, w, c = img.shape\<close> and \<^verbatim>\<open>w, h = img.size\<close> do, the number of its channels, and
  the value of a channel at a row and a column.
\<close>

fun frame_dims :: "frame \<Rightarrow> (nat \<times> nat) option" where
  "frame_dims (NdArray a) = (case shape a of [h, w, c] \<Rightarrow> Some (h, w) | _ \<Rightarrow> None)"
| "frame_dims (PILImage p) = Some (snd (size_pil p), fst (size_pil p))"
| "frame_dims OtherObject = None"

fun frame_channels :: "frame \<Rightarrow> nat" where
  "frame_channels (NdArray a) = (case shape a of [h, w, c] \<Rightarrow> c | _ \<Rightarrow> 0)"
| "frame_channels (PILImage p) = bands p"
| "frame_channels OtherObject = 0"

fun frame_value :: "frame \<Rightarrow> nat \<Rightarrow> nat \<Rightarrow> nat \<Rightarrow> real" where
  "frame_value (NdArray a) y x c = item a [y, x, c]"
| "frame_value (PILImage p) y x c = getpixel p x y c"
| "frame_value OtherObject y x c = 0"

fun is_ndarray :: "frame \<Rightarrow> bool" where
  "is_ndarray (NdArray a) = True"
| "is_ndarray f = False"

fun is_image :: "frame \<Rightarrow> bool" where
  "is_image (PILImage p) = True"
| "is_image f = False"

text \<open>
  Example frames: two arrays of one row, two columns and three channels, and the image
  objects of the same pixels.
\<close>

definition frame_a :: frame where
  "frame_a = NdArray (np_array [[[1, 2, 3], [4, 5, 6]]])"

definition frame_b :: frame where
  "frame_b = NdArray (np_array [[[7, 8, 9], [10, 11, 12]]])"

definition image_a :: frame where
  "image_a = PILImage
     \<lparr>size_pil = (2, 1), bands = 3,
      getpixel = (\<lambda>x y b. item (np_array [[[1, 2, 3], [4, 5, 6]]]) [y, x, b])\<rparr>"

definition image_b :: frame where
  "image_b = PILImage
     \<lparr>size_pil = (2, 1), bands = 3,
      getpixel = (\<lambda>x y b. item (np_array [[[7, 8, 9], [10, 11, 12]]]) [y, x, b])\<rparr>"

text \<open>
  A stand-in for the resizing libraries that shows which filter it was called with: it
  returns the frame as it is for \<^verbatim>\<open>cv2.INTER_LINEAR\<close> and for \<^verbatim>\<open>PIL.Image.NEAREST\<close>, and
  raises ValueError for the other filter.
\<close>

definition probe_libraries :: resize_libraries where
  "probe_libraries =
     \<lparr>cv2_resize = (\<lambda>img sz inter. if inter = INTER_LINEAR then Inr img else Inl ValueError),
      resize_method = (\<lambda>img sz flt. if flt = NEAREST then Inr img else Inl ValueError)\<rparr>"

section \<open>List comprehensions\<close>

lemma map_frames_length: "map_frames f xs = Inr ys \<Longrightarrow> length ys = length xs"
  by (induction xs arbitrary: ys) (auto split: sum.splits)

lemma map_frames_never: "(\<And>x. f x \<noteq> Inl e) \<Longrightarrow> map_frames f xs \<noteq> Inl e"
  by (induction xs) (auto split: sum.splits)

lemma map_frames_pointwise:
  assumes "\<And>x. x \<in> set xs \<Longrightarrow> \<exists>y. f x = Inr y \<and> P x y"
  shows "\<exists>ys. map_frames f xs = Inr ys \<and> length ys = length xs \<and>
              (\<forall>i<length xs. P (xs ! i) (ys ! i))"
  using assms
proof (induction xs)
  case Nil
  then show ?case by simp
next
  case (Cons x xs)
  from Cons.prems obtain y where y: "f x = Inr y" "P x y" by auto
  from Cons obtain ys where ys: "map_frames f xs = Inr ys" "length ys = length xs"
    "\<forall>i<length xs. P (xs ! i) (ys ! i)" by auto
  have "\<forall>i<length (x # xs). P ((x # xs) ! i) ((y # ys) ! i)"
    using y ys by (auto simp: nth_Cons split: nat.splits)
  with y ys show ?case by simp
qed

section \<open>Compose\<close>

lemma foldl_transforms_raised:
  "foldl (\<lambda>acc t. case acc of (Inl e, s') \<Rightarrow> (Inl e, s') | (Inr clip', s') \<Rightarrow> t clip' s')
     (Inl e, s) ts = (Inl e, s)"
  by (induction ts) simp_all

lemma Compose_call_foldl:
  "Compose_call ts clip s =
     foldl (\<lambda>acc t. case acc of (Inl e, s') \<Rightarrow> (Inl e, s') | (Inr clip', s') \<Rightarrow> t clip' s')
       (Inr clip, s) ts"
proof (induction ts arbitrary: clip s)
  case Nil
  show ?case by simp
next
  case (Cons t ts)
  obtain r s' where call: "t clip s = (r, s')" by (cases "t clip s")
  show ?case
  proof (cases r)
    case (Inl e)
    with call show ?thesis by (simp add: foldl_transforms_raised)
  next
    case (Inr clip')
    with call Cons.IH [of clip' s'] show ?thesis by simp
  qed
qed

text \<open>
  C7. Compose folds its transforms from left to right, whatever their number: each
  transform is called on the result of the one before it, in the generator state that
  one left, and an exception raised by a transform is the call's, the transforms after
  it not being called. With no transform the clip is returned as it is, and with the two
  transforms A and B the result is B's on A's result.
\<close>

theorem Compose_call_folds_left_to_right:
  "Compose_call ts clip s =
     foldl (\<lambda>acc t. case acc of (Inl e, s') \<Rightarrow> (Inl e, s') | (Inr clip', s') \<Rightarrow> t clip' s')
       (Inr clip, s) ts \<and>
   Compose_call [] clip s = (Inr clip, s) \<and>
   Compose_call [A, B] clip s =
     (case A clip s of
        (Inl e, s') \<Rightarrow> (Inl e, s')
      | (Inr clip', s') \<Rightarrow> B clip' s')"
  using Compose_call_foldl [of ts clip s] by (simp split: prod.splits sum.splits)

lemma Compose_call_append:
  "Compose_call (ts @ us) clip s =
     (case Compose_call ts clip s of
        (Inl e, s') \<Rightarrow> (Inl e, s')
      | (Inr clip', s') \<Rightarrow> Compose_call us clip' s')"
  by (induction ts arbitrary: clip s) (auto split: prod.splits sum.splits)

section \<open>RandomHorizontalFlip on a frame that is neither array nor image\<close>

text \<open>
  C4, as the code has it. On a clip whose first frame is neither an array nor an image
  object, RandomHorizontalFlip raises TypeError when its draw selects the flip branch
  (a draw below 0.5); on any other draw it returns the clip as it is and raises
  nothing. One draw is made either way.
\<close>

theorem RandomHorizontalFlip_unsupported_first_frame:
  "RandomHorizontalFlip_call (OtherObject # rest) g =
     (if fst (random_random g) < 1 / 2 then Inl TypeError else Inr (OtherObject # rest),
      g\<lparr>pos := pos g + 1\<rparr>)"
  by (simp add: RandomHorizontalFlip_call_def random_random_def)

theorem RandomHorizontalFlip_unsupported_first_frame_witness:
  "fst (RandomHorizontalFlip_call [OtherObject] (seeded 0)) = Inl TypeError"
  using RandomHorizontalFlip_unsupported_first_frame [of "[]" "seeded 0"]
  by (simp add: random_random_def seeded_def)

text \<open>
  C4 as stated fails: with the draw 0.5 the clip of one unsupported frame is returned,
  and no TypeError is raised.
\<close>

theorem RandomHorizontalFlip_unsupported_no_flip_counterexample:
  "fst (RandomHorizontalFlip_call [OtherObject] (seeded (2 ^ 52))) \<noteq> Inl TypeError"
  by (simp add: RandomHorizontalFlip_call_def random_random_def seeded_def)

section \<open>The empty clip\<close>

text \<open>
  C10, as the code has it. On the empty clip ToTensor, Scale and RandomCrop raise
  IndexError, RandomCrop before any draw. RandomHorizontalFlip raises IndexError only
  when its draw selects the flip branch; on any other draw it returns the empty clip,
  as Compose with no transform does.
\<close>

theorem empty_clip_IndexError:
  "ToTensor_call tt [] = Inl IndexError \<and>
   Scale_call lib sc [] = Inl IndexError \<and>
   RandomCrop_call rc [] g = (Inl IndexError, g) \<and>
   RandomHorizontalFlip_call [] g =
     (if fst (random_random g) < 1 / 2 then Inl IndexError else Inr [],
      g\<lparr>pos := pos g + 1\<rparr>) \<and>
   Compose_call [] [] g = (Inr [], g)"
  by (simp add: ToTensor_call_def Scale_call_def RandomCrop_call_def
      RandomHorizontalFlip_call_def random_random_def split: prod.splits)

theorem empty_clip_IndexError_witness:
  "ToTensor_call \<lparr>channel_nb = 3\<rparr> [] = Inl IndexError \<and>
   RandomCrop_call \<lparr>size_RandomCrop = (2, 2)\<rparr> [] (seeded 0) = (Inl IndexError, seeded 0) \<and>
   fst (RandomHorizontalFlip_call [] (seeded 0)) = Inl IndexError"
  using empty_clip_IndexError [of "\<lparr>channel_nb = 3\<rparr>" lib sc "\<lparr>size_RandomCrop = (2, 2)\<rparr>" "seeded 0"]
  by (simp add: random_random_def seeded_def)

text \<open>
  C10 as stated fails: RandomHorizontalFlip with the draw 0.5 returns the empty clip
  for the empty clip.
\<close>

theorem RandomHorizontalFlip_empty_clip_counterexample:
  "fst (RandomHorizontalFlip_call [] (seeded (2 ^ 52))) = Inr []"
  by (simp add: RandomHorizontalFlip_call_def random_random_def seeded_def)

section \<open>ToTensor's check of the channel count\<close>

lemma fill_clip_no_AssertionError: "fill_clip np_clip img_idx clip \<noteq> Inl AssertionError"
  by (induction clip arbitrary: np_clip img_idx)
     (auto simp: store_frame_def convert_img_def reversed_axis2_def setitem_frame_def
           split: sum.splits frame.splits list.splits if_splits)

lemma ToTensor_call_AssertionError_iff:
  "ToTensor_call self clip = Inl AssertionError \<longleftrightarrow>
     (\<exists>a rest h w c. clip = NdArray a # rest \<and> shape a = [h, w, c] \<and> c \<noteq> channel_nb self)"
  using fill_clip_no_AssertionError
  by (auto simp: ToTensor_call_def
           split: list.splits frame.splits sum.splits if_splits prod.splits)

lemma ToTensor_call_first_frame_channels:
  "clip = NdArray a # rest \<Longrightarrow> shape a = [h, w, c] \<Longrightarrow> c \<noteq> channel_nb self \<Longrightarrow>
   ToTensor_call self clip = Inl AssertionError"
  by (simp add: ToTensor_call_def)

text \<open>
  C8. On a clip whose frames are of one representation and share their height, width
  and channel count, and which holds an array frame, ToTensor raises AssertionError
  whenever that channel count is not \<open>channel_nb\<close>.
\<close>

theorem ToTensor_call_channel_count_mismatch:
  assumes uniform: "(\<forall>f\<in>set clip. is_ndarray f) \<or> (\<forall>f\<in>set clip. is_image f)"
    and shape: "\<forall>f\<in>set clip. frame_dims f = Some (H, W) \<and> frame_channels f = C"
    and array: "\<exists>f\<in>set clip. is_ndarray f"
    and mismatch: "C \<noteq> channel_nb self"
  shows "ToTensor_call self clip = Inl AssertionError"
proof -
  from array obtain f where f: "f \<in> set clip" "is_ndarray f" by blast
  then have nonempty: "clip \<noteq> []" by auto
  then obtain first rest where clip: "clip = first # rest" by (cases clip) auto
  have "\<not> is_image f" using f(2) by (cases f) auto
  with uniform f(1) have "\<forall>g\<in>set clip. is_ndarray g" by blast
  with clip obtain a where first: "first = NdArray a" by (cases first) auto
  from shape clip first have "frame_dims (NdArray a) = Some (H, W)" "frame_channels (NdArray a) = C"
    by auto
  then have "shape a = [H, W, C]" by (auto split: list.splits)
  with clip first mismatch show ?thesis
    by (intro ToTensor_call_first_frame_channels [of clip a rest H W C self]) simp_all
qed

theorem ToTensor_call_channel_count_mismatch_witness:
  "ToTensor_call \<lparr>channel_nb = 3\<rparr>
     [NdArray (np_array [[[1, 2, 3, 4]]]), NdArray (np_array [[[5, 6, 7, 8]]])] =
   Inl AssertionError"
proof -
  let ?clip = "[NdArray (np_array [[[1, 2, 3, 4]]]), NdArray (np_array [[[5, 6, 7, 8]]])]"
  have "(\<forall>f\<in>set ?clip. is_ndarray f) \<or> (\<forall>f\<in>set ?clip. is_image f)"
    and "\<forall>f\<in>set ?clip. frame_dims f = Some (1, 1) \<and> frame_channels f = 4"
    and "\<exists>f\<in>set ?clip. is_ndarray f"
    and "4 \<noteq> channel_nb \<lparr>channel_nb = 3\<rparr>"
    by (simp_all add: np_array_def)
  from ToTensor_call_channel_count_mismatch [OF this] show ?thesis .
qed

section \<open>Scale\<close>

text \<open>
  C3. The filter Scale asks for depends on the representation of the first frame. For
  an array, the interpolation \<^verbatim>\<open>'bilinear'\<close> calls \<^verbatim>\<open>cv2.resize\<close> with \<^verbatim>\<open>INTER_LINEAR\<close> and any
  other string with \<^verbatim>\<open>INTER_NEAREST\<close>; for an image object, \<^verbatim>\<open>'bilinear'\<close> calls the
  frame's \<^verbatim>\<open>resize\<close> with \<^verbatim>\<open>NEAREST\<close> and any other string with \<^verbatim>\<open>BILINEAR\<close>. Every frame
  of the clip is resized with that one filter.
\<close>

theorem Scale_call_interpolation_mapping:
  "(is_ndarray first \<longrightarrow>
      (interpolation self = ''bilinear'' \<longrightarrow>
         Scale_call lib self (first # rest) =
           map_frames (\<lambda>img. cv2_resize lib img (size_Scale self) INTER_LINEAR) (first # rest)) \<and>
      (interpolation self \<noteq> ''bilinear'' \<longrightarrow>
         Scale_call lib self (first # rest) =
           map_frames (\<lambda>img. cv2_resize lib img (size_Scale self) INTER_NEAREST) (first # rest))) \<and>
   (is_image first \<longrightarrow>
      (interpolation self = ''bilinear'' \<longrightarrow>
         Scale_call lib self (first # rest) =
           map_frames (\<lambda>img. resize_method lib img (size_Scale self) NEAREST) (first # rest)) \<and>
      (interpolation self \<noteq> ''bilinear'' \<longrightarrow>
         Scale_call lib self (first # rest) =
           map_frames (\<lambda>img. resize_method lib img (size_Scale self) BILINEAR) (first # rest)))"
  by (cases first) (simp_all add: Scale_call_def)

theorem Scale_call_interpolation_mapping_witness:
  "Scale_call probe_libraries \<lparr>size_Scale = (2, 2), interpolation = ''bilinear''\<rparr>
     [frame_a, frame_b] = Inr [frame_a, frame_b] \<and>
   Scale_call probe_libraries \<lparr>size_Scale = (2, 2), interpolation = ''nearest''\<rparr>
     [frame_a, frame_b] = Inl ValueError \<and>
   Scale_call probe_libraries \<lparr>size_Scale = (2, 2), interpolation = ''bilinear''\<rparr>
     [image_a, image_b] = Inr [image_a, image_b] \<and>
   Scale_call probe_libraries \<lparr>size_Scale = (2, 2), interpolation = ''nearest''\<rparr>
     [image_a, image_b] = Inl ValueError"
  using Scale_call_interpolation_mapping [of frame_a
          "\<lparr>size_Scale = (2, 2), interpolation = ''bilinear''\<rparr>" probe_libraries "[frame_b]"]
        Scale_call_interpolation_mapping [of frame_a
          "\<lparr>size_Scale = (2, 2), interpolation = ''nearest''\<rparr>" probe_libraries "[frame_b]"]
        Scale_call_interpolation_mapping [of image_a
          "\<lparr>size_Scale = (2, 2), interpolation = ''bilinear''\<rparr>" probe_libraries "[image_b]"]
        Scale_call_interpolation_mapping [of image_a
          "\<lparr>size_Scale = (2, 2), interpolation = ''nearest''\<rparr>" probe_libraries "[image_b]"]
  by (simp add: probe_libraries_def frame_a_def frame_b_def image_a_def image_b_def)

section \<open>The number of frames\<close>

text \<open>
  C9. When RandomHorizontalFlip, Scale or RandomCrop returns a clip, it has as many
  frames as the clip it was called on.
\<close>

theorem frame_count_preserved:
  "(fst (RandomHorizontalFlip_call clip g) = Inr out \<longrightarrow> length out = length clip) \<and>
   (Scale_call lib sc clip = Inr out \<longrightarrow> length out = length clip) \<and>
   (fst (RandomCrop_call rc clip g) = Inr out \<longrightarrow> length out = length clip)"
proof (intro conjI impI)
  assume "fst (RandomHorizontalFlip_call clip g) = Inr out"
  then show "length out = length clip"
    by (auto simp: RandomHorizontalFlip_call_def simp del: map_frames.simps
             split: prod.splits if_splits list.splits frame.splits dest: map_frames_length)
next
  assume "Scale_call lib sc clip = Inr out"
  then show "length out = length clip"
    by (auto simp: Scale_call_def Let_def simp del: map_frames.simps
             split: list.splits frame.splits dest: map_frames_length)
next
  assume "fst (RandomCrop_call rc clip g) = Inr out"
  then show "length out = length clip"
    by (auto simp: RandomCrop_call_def simp del: map_frames.simps
             split: prod.splits if_splits list.splits frame.splits sum.splits
             dest: map_frames_length)
qed

theorem frame_count_preserved_witness:
  "(\<exists>out. fst (RandomHorizontalFlip_call [frame_a, frame_b] (seeded 0)) = Inr out \<and>
          length out = 2) \<and>
   (\<exists>out. Scale_call probe_libraries \<lparr>size_Scale = (2, 2), interpolation = ''bilinear''\<rparr>
            [frame_a, frame_b] = Inr out \<and> length out = 2) \<and>
   (\<exists>out. fst (RandomCrop_call \<lparr>size_RandomCrop = (1, 1)\<rparr> [image_a, image_b] (seeded 0)) =
            Inr out \<and> length out = 2)"
proof (intro conjI)
  have "\<exists>out. fst (RandomHorizontalFlip_call [frame_a, frame_b] (seeded 0)) = Inr out"
    by (simp add: RandomHorizontalFlip_call_def random_random_def seeded_def frame_a_def
        frame_b_def np_array_def fliplr_def)
  then obtain out where out: "fst (RandomHorizontalFlip_call [frame_a, frame_b] (seeded 0)) = Inr out" ..
  with frame_count_preserved [of "[frame_a, frame_b]" "seeded 0" out]
  show "\<exists>out. fst (RandomHorizontalFlip_call [frame_a, frame_b] (seeded 0)) = Inr out \<and>
          length out = 2" by simp
next
  let ?sc = "\<lparr>size_Scale = (2, 2), interpolation = ''bilinear''\<rparr>"
  have "\<exists>out. Scale_call probe_libraries ?sc [frame_a, frame_b] = Inr out"
    by (simp add: Scale_call_def probe_libraries_def frame_a_def frame_b_def)
  then obtain out where out: "Scale_call probe_libraries ?sc [frame_a, frame_b] = Inr out" ..
  with frame_count_preserved [of "[frame_a, frame_b]" _ out probe_libraries ?sc]
  show "\<exists>out. Scale_call probe_libraries ?sc [frame_a, frame_b] = Inr out \<and> length out = 2"
    by simp
next
  let ?rc = "\<lparr>size_RandomCrop = (1, 1)\<rparr>"
  have "\<exists>out. fst (RandomCrop_call ?rc [image_a, image_b] (seeded 0)) = Inr out"
    by (simp add: RandomCrop_call_def random_randint_def seeded_def image_a_def
        image_b_def np_array_def)
  then obtain out where out: "fst (RandomCrop_call ?rc [image_a, image_b] (seeded 0)) = Inr out" ..
  with frame_count_preserved [of "[image_a, image_b]" "seeded 0" out _ _ ?rc]
  show "\<exists>out. fst (RandomCrop_call ?rc [image_a, image_b] (seeded 0)) = Inr out \<and> length out = 2"
    by simp
qed

section \<open>RandomCrop\<close>

lemma random_randint_from_0:
  "0 \<le> n \<Longrightarrow> random_randint 0 n g =
     (Inr (int (tape g (pos g) mod nat (n + 1))), g\<lparr>pos := pos g + 1\<rparr>)"
  by (simp add: random_randint_def)

lemma crop_slice_no_ValueError: "crop_slice y1 h x1 w f \<noteq> Inl ValueError"
  by (cases f) (auto split: list.splits)

lemma crop_method_no_ValueError: "crop_method box f \<noteq> Inl ValueError"
  by (cases box; cases f) auto

text \<open>
  C5. On a clip whose first frame has a height and a width (an array of height by width
  by channels, or an image object), RandomCrop raises ValueError exactly when the
  requested height exceeds the frame's height or the requested width its width; it
  does so before any draw, the generator's state being the one it was called with.
\<close>

theorem RandomCrop_call_ValueError_iff:
  assumes "frame_dims first = Some (im_h, im_w)" and "size_RandomCrop self = (h, w)"
  shows "(fst (RandomCrop_call self (first # rest) g) = Inl ValueError \<longleftrightarrow>
            im_h < h \<or> im_w < w) \<and>
         (im_h < h \<or> im_w < w \<longrightarrow>
            RandomCrop_call self (first # rest) g = (Inl ValueError, g))"
proof (cases "im_h < h \<or> im_w < w")
  case True
  with assms show ?thesis
    by (cases first) (auto simp: RandomCrop_call_def split: list.splits)
next
  case False
  then have le: "0 \<le> int im_w - int w" "0 \<le> int im_h - int h" by auto
  show ?thesis
  proof (cases first)
    case (NdArray a)
    with assms False le show ?thesis
      using map_frames_never [of "crop_slice _ h _ w" ValueError "first # rest",
          OF crop_slice_no_ValueError]
      by (auto simp: RandomCrop_call_def random_randint_from_0 simp del: map_frames.simps
               split: list.splits)
  next
    case (PILImage p)
    with assms False le show ?thesis
      using map_frames_never [of "crop_method _" ValueError "first # rest",
          OF crop_method_no_ValueError]
      by (auto simp: RandomCrop_call_def random_randint_from_0 simp del: map_frames.simps
               split: list.splits)
  next
    case OtherObject
    with assms show ?thesis by simp
  qed
qed

theorem RandomCrop_call_ValueError_iff_witness:
  "RandomCrop_call \<lparr>size_RandomCrop = (2, 1)\<rparr> [frame_a, frame_b] (seeded 0) =
     (Inl ValueError, seeded 0) \<and>
   RandomCrop_call \<lparr>size_RandomCrop = (1, 3)\<rparr> [image_a, image_b] (seeded 0) =
     (Inl ValueError, seeded 0) \<and>
   fst (RandomCrop_call \<lparr>size_RandomCrop = (1, 2)\<rparr> [frame_a, frame_b] (seeded 0)) \<noteq>
     Inl ValueError"
  using RandomCrop_call_ValueError_iff [of frame_a 1 2 "\<lparr>size_RandomCrop = (2, 1)\<rparr>" 2 1
          "[frame_b]" "seeded 0"]
        RandomCrop_call_ValueError_iff [of image_a 1 2 "\<lparr>size_RandomCrop = (1, 3)\<rparr>" 1 3
          "[image_b]" "seeded 0"]
        RandomCrop_call_ValueError_iff [of frame_a 1 2 "\<lparr>size_RandomCrop = (1, 2)\<rparr>" 1 2
          "[frame_b]" "seeded 0"]
  by (simp add: frame_a_def image_a_def np_array_def)

lemma crop_slice_ndarray:
  assumes "is_ndarray f" and "frame_dims f = Some (im_h, im_w)"
    and "y1 + h \<le> im_h" and "x1 + w \<le> im_w"
  shows "\<exists>f'. crop_slice y1 h x1 w f = Inr f' \<and> is_ndarray f' \<and> \<not> is_image f' \<and>
           frame_dims f' = Some (h, w) \<and>
           (\<forall>y x c. frame_value f' y x c = frame_value f (y1 + y) (x1 + x) c)"
proof (cases f)
  case (NdArray a)
  with assms obtain c where "shape a = [im_h, im_w, c]"
    by (auto split: list.splits)
  with NdArray assms show ?thesis by simp
qed (use assms in auto)

lemma crop_method_image:
  assumes "is_image f" and "frame_dims f = Some (im_h, im_w)"
    and "y1 + h \<le> im_h" and "x1 + w \<le> im_w"
  shows "\<exists>f'. crop_method (x1, y1, x1 + w, y1 + h) f = Inr f' \<and> \<not> is_ndarray f' \<and> is_image f' \<and>
           frame_dims f' = Some (h, w) \<and>
           (\<forall>y<h. \<forall>x<w. \<forall>c. frame_value f' y x c = frame_value f (y1 + y) (x1 + x) c)"
proof (cases f)
  case (PILImage p)
  with assms show ?thesis by auto
qed (use assms in auto)

text \<open>
  C1. On a clip of frames of one representation and one height and width, with a
  requested size that fits, RandomCrop makes two draws, one offset pair: \<open>x1\<close> of
  \<open>[0, im_w - w]\<close> and \<open>y1\<close> of \<open>[0, im_h - h]\<close>. It returns a clip of as many frames, each of
  height \<open>h\<close> and width \<open>w\<close> and of the representation it had, and each the window of its
  input frame at that one offset.
\<close>

theorem RandomCrop_call_one_offset:
  assumes nonempty: "clip \<noteq> []"
    and uniform: "(\<forall>f\<in>set clip. is_ndarray f) \<or> (\<forall>f\<in>set clip. is_image f)"
    and dims: "\<forall>f\<in>set clip. frame_dims f = Some (im_h, im_w)"
    and size: "size_RandomCrop self = (h, w)" and h: "h \<le> im_h" and w: "w \<le> im_w"
  shows "\<exists>x1 y1 out.
           x1 = tape g (pos g) mod (im_w - w + 1) \<and> y1 = tape g (pos g + 1) mod (im_h - h + 1) \<and>
           x1 \<le> im_w - w \<and> y1 \<le> im_h - h \<and>
           RandomCrop_call self clip g = (Inr out, g\<lparr>pos := pos g + 2\<rparr>) \<and>
           length out = length clip \<and>
           (\<forall>i<length clip.
              frame_dims (out ! i) = Some (h, w) \<and>
              is_ndarray (out ! i) = is_ndarray (clip ! i) \<and>
              is_image (out ! i) = is_image (clip ! i) \<and>
              (\<forall>y<h. \<forall>x<w. \<forall>c.
                 frame_value (out ! i) y x c = frame_value (clip ! i) (y1 + y) (x1 + x) c))"
proof -
  define x1 where "x1 = tape g (pos g) mod (im_w - w + 1)"
  define y1 where "y1 = tape g (pos g + 1) mod (im_h - h + 1)"
  have x1: "x1 \<le> im_w - w" and y1: "y1 \<le> im_h - h"
    unfolding x1_def y1_def by (simp_all add: less_Suc_eq_le [symmetric])
  have xw: "x1 + w \<le> im_w" and yh: "y1 + h \<le> im_h" using x1 y1 h w by auto
  from nonempty obtain first rest where clip: "clip = first # rest" by (cases clip) auto
  have first_dims: "frame_dims first = Some (im_h, im_w)" using dims clip by simp
  have nx: "nat (int im_w - int w + 1) = im_w - w + 1" and ny: "nat (int im_h - int h + 1) = im_h - h + 1"
    using h w by auto
  have draws: "random_randint 0 (int im_w - int w) g = (Inr (int x1), g\<lparr>pos := Suc (pos g)\<rparr>)"
    "random_randint 0 (int im_h - int h) (g\<lparr>pos := Suc (pos g)\<rparr>) =
       (Inr (int y1), g\<lparr>pos := pos g + 2\<rparr>)"
    using h w by (simp_all add: random_randint_from_0 nx ny x1_def y1_def)
  from uniform show ?thesis
  proof
    assume arr: "\<forall>f\<in>set clip. is_ndarray f"
    have "\<And>f. f \<in> set clip \<Longrightarrow> \<exists>f'. crop_slice y1 h x1 w f = Inr f' \<and>
        (is_ndarray f' \<and> \<not> is_image f' \<and> frame_dims f' = Some (h, w) \<and>
           (\<forall>y x c. frame_value f' y x c = frame_value f (y1 + y) (x1 + x) c))"
      using crop_slice_ndarray [OF _ _ yh xw] arr dims by blast
    from map_frames_pointwise [where f = "crop_slice y1 h x1 w", OF this]
    obtain out where out: "map_frames (crop_slice y1 h x1 w) clip = Inr out"
      "length out = length clip"
      "\<forall>i<length clip. is_ndarray (out ! i) \<and> \<not> is_image (out ! i) \<and> frame_dims (out ! i) = Some (h, w) \<and>
           (\<forall>y x c. frame_value (out ! i) y x c = frame_value (clip ! i) (y1 + y) (x1 + x) c)"
      by blast
    from arr clip obtain a where first: "first = NdArray a" by (cases first) auto
    with first_dims obtain c where sh: "shape a = [im_h, im_w, c]" by (auto split: list.splits)
    have call: "RandomCrop_call self clip g = (Inr out, g\<lparr>pos := pos g + 2\<rparr>)"
      using out(1) h w unfolding clip first RandomCrop_call_def
      by (simp add: size sh draws del: map_frames.simps)
    have cls: "\<forall>i<length clip. is_ndarray (clip ! i) \<and> \<not> is_image (clip ! i)"
    proof (intro allI impI)
      fix i assume "i < length clip"
      then have "is_ndarray (clip ! i)" using arr by simp
      then show "is_ndarray (clip ! i) \<and> \<not> is_image (clip ! i)" by (cases "clip ! i") auto
    qed
    show ?thesis
      using x1 y1 call out(2,3) cls unfolding x1_def [symmetric] y1_def [symmetric]
      by (intro exI [of _ x1] exI [of _ y1] exI [of _ out]) (simp add: x1_def y1_def)
  next
    assume img: "\<forall>f\<in>set clip. is_image f"
    have "\<And>f. f \<in> set clip \<Longrightarrow> \<exists>f'. crop_method (x1, y1, x1 + w, y1 + h) f = Inr f' \<and>
        (\<not> is_ndarray f' \<and> is_image f' \<and> frame_dims f' = Some (h, w) \<and>
           (\<forall>y<h. \<forall>x<w. \<forall>c. frame_value f' y x c = frame_value f (y1 + y) (x1 + x) c))"
      using crop_method_image [OF _ _ yh xw] img dims by blast
    from map_frames_pointwise [where f = "crop_method (x1, y1, x1 + w, y1 + h)", OF this]
    obtain out where out: "map_frames (crop_method (x1, y1, x1 + w, y1 + h)) clip = Inr out"
      "length out = length clip"
      "\<forall>i<length clip. \<not> is_ndarray (out ! i) \<and> is_image (out ! i) \<and> frame_dims (out ! i) = Some (h, w) \<and>
           (\<forall>y<h. \<forall>x<w. \<forall>c. frame_value (out ! i) y x c = frame_value (clip ! i) (y1 + y) (x1 + x) c)"
      by blast
    from img clip obtain p where first: "first = PILImage p" by (cases first) auto
    with first_dims have sz: "size_pil p = (im_w, im_h)" by (cases "size_pil p") auto
    have call: "RandomCrop_call self clip g = (Inr out, g\<lparr>pos := pos g + 2\<rparr>)"
      using out(1) h w unfolding clip first RandomCrop_call_def
      by (simp add: size sz draws del: map_frames.simps)
    have cls: "\<forall>i<length clip. \<not> is_ndarray (clip ! i) \<and> is_image (clip ! i)"
    proof (intro allI impI)
      fix i assume "i < length clip"
      then have "is_image (clip ! i)" using img by simp
      then show "\<not> is_ndarray (clip ! i) \<and> is_image (clip ! i)" by (cases "clip ! i") auto
    qed
    show ?thesis
      using x1 y1 call out(2,3) cls
      by (intro exI [of _ x1] exI [of _ y1] exI [of _ out]) (simp add: x1_def y1_def)
  qed
qed

theorem RandomCrop_call_one_offset_witness:
  "\<exists>out. RandomCrop_call \<lparr>size_RandomCrop = (1, 1)\<rparr> [frame_a, frame_b] (seeded 1) =
            (Inr out, (seeded 1)\<lparr>pos := 2\<rparr>) \<and>
         length out = 2 \<and>
         frame_dims (out ! 0) = Some (1, 1) \<and> frame_dims (out ! 1) = Some (1, 1) \<and>
         frame_value (out ! 0) 0 0 0 = 4 \<and> frame_value (out ! 1) 0 0 0 = 10"
proof -
  have "[frame_a, frame_b] \<noteq> []"
    and "(\<forall>f\<in>set [frame_a, frame_b]. is_ndarray f) \<or> (\<forall>f\<in>set [frame_a, frame_b]. is_image f)"
    and "\<forall>f\<in>set [frame_a, frame_b]. frame_dims f = Some (1, 2)"
    and "size_RandomCrop \<lparr>size_RandomCrop = (1, 1)\<rparr> = (1, 1)"
    and "(1::nat) \<le> 1" and "(1::nat) \<le> 2"
    by (simp_all add: frame_a_def frame_b_def np_array_def)
  from RandomCrop_call_one_offset [OF this, of "seeded 1"]
  obtain x1 y1 out where
    x1: "x1 = tape (seeded 1) (pos (seeded 1)) mod (2 - 1 + 1)" and
    y1: "y1 = tape (seeded 1) (pos (seeded 1) + 1) mod (1 - 1 + 1)" and
    call: "RandomCrop_call \<lparr>size_RandomCrop = (1, 1)\<rparr> [frame_a, frame_b] (seeded 1) =
             (Inr out, (seeded 1)\<lparr>pos := pos (seeded 1) + 2\<rparr>)" and
    len: "length out = length [frame_a, frame_b]" and
    frames: "\<forall>i<length [frame_a, frame_b].
        frame_dims (out ! i) = Some (1, 1) \<and>
        is_ndarray (out ! i) = is_ndarray ([frame_a, frame_b] ! i) \<and>
        is_image (out ! i) = is_image ([frame_a, frame_b] ! i) \<and>
        (\<forall>y<1. \<forall>x<1. \<forall>c.
           frame_value (out ! i) y x c = frame_value ([frame_a, frame_b] ! i) (y1 + y) (x1 + x) c)"
    by blast
  have xy: "x1 = 1" "y1 = 0" using x1 y1 by (simp_all add: seeded_def)
  from frames have "frame_dims (out ! 0) = Some (1, 1)" "frame_dims (out ! 1) = Some (1, 1)"
    "frame_value (out ! 0) 0 0 0 = frame_value frame_a y1 x1 0"
    "frame_value (out ! 1) 0 0 0 = frame_value frame_b y1 x1 0"
    by simp_all
  with call len xy show ?thesis
    by (simp add: seeded_def frame_a_def frame_b_def np_array_def)
qed

section \<open>RandomHorizontalFlip\<close>

lemma np_fliplr_ndarray:
  assumes "is_ndarray f" and "frame_dims f \<noteq> None"
  shows "\<exists>f'. np_fliplr f = Inr f' \<and> (is_ndarray f' = is_ndarray f \<and> is_image f' = is_image f \<and>
            frame_dims f' = frame_dims f \<and>
            (\<forall>h w. frame_dims f = Some (h, w) \<longrightarrow>
               (\<forall>y<h. \<forall>x<w. \<forall>c. frame_value f' y x c = frame_value f y (w - 1 - x) c)))"
proof (cases f)
  case (NdArray a)
  with assms obtain h w c where "shape a = [h, w, c]"
    by (auto split: list.splits)
  with NdArray show ?thesis by (simp add: fliplr_def)
qed (use assms in auto)

lemma transpose_image:
  assumes "is_image f"
  shows "\<exists>f'. transpose_FLIP_LEFT_RIGHT f = Inr f' \<and> (is_ndarray f' = is_ndarray f \<and> is_image f' = is_image f \<and>
            frame_dims f' = frame_dims f \<and>
            (\<forall>h w. frame_dims f = Some (h, w) \<longrightarrow>
               (\<forall>y<h. \<forall>x<w. \<forall>c. frame_value f' y x c = frame_value f y (w - 1 - x) c)))"
proof (cases f)
  case (PILImage p)
  then show ?thesis by (simp add: FLIP_LEFT_RIGHT_def)
qed (use assms in auto)

text \<open>
  C6. On a clip of frames of one representation, each with a height and a width,
  RandomHorizontalFlip makes one draw. When the draw selects the flip branch, it
  returns a clip of as many frames, each of the representation and the height and width
  of its input frame, whose value at a row and a column is the input frame's at that row
  and the mirrored column. On any other draw it returns the clip it was called on.
\<close>

theorem RandomHorizontalFlip_call_one_draw:
  assumes nonempty: "clip \<noteq> []"
    and uniform: "(\<forall>f\<in>set clip. is_ndarray f) \<or> (\<forall>f\<in>set clip. is_image f)"
    and dims: "\<forall>f\<in>set clip. frame_dims f \<noteq> None"
  shows "snd (RandomHorizontalFlip_call clip g) = g\<lparr>pos := pos g + 1\<rparr> \<and>
         (fst (random_random g) < 1 / 2 \<longrightarrow>
            (\<exists>out. fst (RandomHorizontalFlip_call clip g) = Inr out \<and>
               length out = length clip \<and>
               (\<forall>i<length clip. (is_ndarray (out ! i) = is_ndarray (clip ! i) \<and> is_image (out ! i) = is_image (clip ! i) \<and>
            frame_dims (out ! i) = frame_dims (clip ! i) \<and>
            (\<forall>h w. frame_dims (clip ! i) = Some (h, w) \<longrightarrow>
               (\<forall>y<h. \<forall>x<w. \<forall>c. frame_value (out ! i) y x c = frame_value (clip ! i) y (w - 1 - x) c)))))) \<and>
         (\<not> fst (random_random g) < 1 / 2 \<longrightarrow>
            fst (RandomHorizontalFlip_call clip g) = Inr clip)"
proof -
  from nonempty obtain first rest where clip: "clip = first # rest" by (cases clip) auto
  have state: "snd (RandomHorizontalFlip_call clip g) = g\<lparr>pos := pos g + 1\<rparr>"
    by (simp add: RandomHorizontalFlip_call_def random_random_def
             split: list.splits frame.splits)
  have no_flip: "fst (RandomHorizontalFlip_call clip g) = Inr clip"
    if "\<not> fst (random_random g) < 1 / 2"
    using that by (auto simp: RandomHorizontalFlip_call_def split: prod.splits)
  have flip: "\<exists>out. fst (RandomHorizontalFlip_call clip g) = Inr out \<and>
               length out = length clip \<and> (\<forall>i<length clip. (is_ndarray (out ! i) = is_ndarray (clip ! i) \<and> is_image (out ! i) = is_image (clip ! i) \<and>
            frame_dims (out ! i) = frame_dims (clip ! i) \<and>
            (\<forall>h w. frame_dims (clip ! i) = Some (h, w) \<longrightarrow>
               (\<forall>y<h. \<forall>x<w. \<forall>c. frame_value (out ! i) y x c = frame_value (clip ! i) y (w - 1 - x) c))))"
    if r: "fst (random_random g) < 1 / 2"
    using uniform
  proof
    assume arr: "\<forall>f\<in>set clip. is_ndarray f"
    then obtain a where first: "first = NdArray a" using clip by (cases first) auto
    have call: "fst (RandomHorizontalFlip_call clip g) = map_frames np_fliplr clip"
      using r unfolding clip first
      by (auto simp: RandomHorizontalFlip_call_def split: prod.splits simp del: map_frames.simps)
    have "\<And>f. f \<in> set clip \<Longrightarrow> \<exists>f'. np_fliplr f = Inr f' \<and> (is_ndarray f' = is_ndarray f \<and> is_image f' = is_image f \<and>
            frame_dims f' = frame_dims f \<and>
            (\<forall>h w. frame_dims f = Some (h, w) \<longrightarrow>
               (\<forall>y<h. \<forall>x<w. \<forall>c. frame_value f' y x c = frame_value f y (w - 1 - x) c)))"
      using np_fliplr_ndarray arr dims by blast
    from map_frames_pointwise [where f = np_fliplr, OF this] call show ?thesis by simp
  next
    assume img: "\<forall>f\<in>set clip. is_image f"
    then obtain p where first: "first = PILImage p" using clip by (cases first) auto
    have call: "fst (RandomHorizontalFlip_call clip g) = map_frames transpose_FLIP_LEFT_RIGHT clip"
      using r unfolding clip first
      by (auto simp: RandomHorizontalFlip_call_def split: prod.splits simp del: map_frames.simps)
    have "\<And>f. f \<in> set clip \<Longrightarrow> \<exists>f'. transpose_FLIP_LEFT_RIGHT f = Inr f' \<and> (is_ndarray f' = is_ndarray f \<and> is_image f' = is_image f \<and>
            frame_dims f' = frame_dims f \<and>
            (\<forall>h w. frame_dims f = Some (h, w) \<longrightarrow>
               (\<forall>y<h. \<forall>x<w. \<forall>c. frame_value f' y x c = frame_value f y (w - 1 - x) c)))"
      using transpose_image img by blast
    from map_frames_pointwise [where f = transpose_FLIP_LEFT_RIGHT, OF this] call
    show ?thesis by simp
  qed
  from state no_flip flip show ?thesis by blast
qed

theorem RandomHorizontalFlip_call_one_draw_witness:
  "(\<exists>out. RandomHorizontalFlip_call [image_a, image_b] (seeded 0) =
            (Inr out, (seeded 0)\<lparr>pos := 1\<rparr>) \<and>
          length out = 2 \<and> is_image (out ! 0) \<and> is_image (out ! 1) \<and>
          frame_value (out ! 0) 0 0 0 = 4 \<and> frame_value (out ! 0) 0 1 0 = 1 \<and>
          frame_value (out ! 1) 0 0 2 = 12) \<and>
   RandomHorizontalFlip_call [image_a, image_b] (seeded (2 ^ 52)) =
     (Inr [image_a, image_b], (seeded (2 ^ 52))\<lparr>pos := 1\<rparr>)"
proof -
  have hyps: "[image_a, image_b] \<noteq> []"
    "(\<forall>f\<in>set [image_a, image_b]. is_ndarray f) \<or> (\<forall>f\<in>set [image_a, image_b]. is_image f)"
    "\<forall>f\<in>set [image_a, image_b]. frame_dims f \<noteq> None"
    by (simp_all add: image_a_def image_b_def)
  have dims: "frame_dims image_a = Some (1, 2)" "frame_dims image_b = Some (1, 2)"
    by (simp_all add: image_a_def image_b_def np_array_def)
  note flip = RandomHorizontalFlip_call_one_draw [OF hyps, of "seeded 0"]
  have "fst (random_random (seeded 0)) < 1 / 2"
    by (simp add: random_random_def seeded_def)
  with flip obtain out where
    out: "fst (RandomHorizontalFlip_call [image_a, image_b] (seeded 0)) = Inr out"
    "length out = length [image_a, image_b]"
    "\<forall>i<length [image_a, image_b].
       is_ndarray (out ! i) = is_ndarray ([image_a, image_b] ! i) \<and>
       is_image (out ! i) = is_image ([image_a, image_b] ! i) \<and>
       frame_dims (out ! i) = frame_dims ([image_a, image_b] ! i) \<and>
       (\<forall>h w. frame_dims ([image_a, image_b] ! i) = Some (h, w) \<longrightarrow>
          (\<forall>y<h. \<forall>x<w. \<forall>c.
             frame_value (out ! i) y x c = frame_value ([image_a, image_b] ! i) y (w - 1 - x) c))"
    by blast
  from out(3) have a: "is_image (out ! 0) = is_image image_a"
    "\<forall>y<1. \<forall>x<2. \<forall>c. frame_value (out ! 0) y x c = frame_value image_a y (2 - 1 - x) c"
    using dims(1) by auto
  from out(3) have b: "is_image (out ! 1) = is_image image_b"
    "\<forall>y<1. \<forall>x<2. \<forall>c. frame_value (out ! 1) y x c = frame_value image_b y (2 - 1 - x) c"
    using dims(2) by auto
  have first: "\<exists>out. RandomHorizontalFlip_call [image_a, image_b] (seeded 0) =
            (Inr out, (seeded 0)\<lparr>pos := 1\<rparr>) \<and>
          length out = 2 \<and> is_image (out ! 0) \<and> is_image (out ! 1) \<and>
          frame_value (out ! 0) 0 0 0 = 4 \<and> frame_value (out ! 0) 0 1 0 = 1 \<and>
          frame_value (out ! 1) 0 0 2 = 12"
  proof (intro exI [of _ out] conjI)
    show "RandomHorizontalFlip_call [image_a, image_b] (seeded 0) = (Inr out, (seeded 0)\<lparr>pos := 1\<rparr>)"
      using flip out(1) by (simp add: prod_eq_iff seeded_def)
    show "length out = 2" using out(2) by simp
    show "is_image (out ! 0)" using a(1) by (simp add: image_a_def)
    show "is_image (out ! 1)" using b(1) by (simp add: image_b_def)
    show "frame_value (out ! 0) 0 0 0 = 4"
      using a(2) by (simp add: image_a_def np_array_def)
    show "frame_value (out ! 0) 0 1 0 = 1"
      using a(2) by (simp add: image_a_def np_array_def)
    show "frame_value (out ! 1) 0 0 2 = 12"
      using b(2) by (simp add: image_b_def np_array_def)
  qed
  note no_flip = RandomHorizontalFlip_call_one_draw [OF hyps, of "seeded (2 ^ 52)"]
  have "\<not> fst (random_random (seeded (2 ^ 52))) < 1 / 2"
    by (simp add: random_random_def seeded_def)
  with no_flip have second: "RandomHorizontalFlip_call [image_a, image_b] (seeded (2 ^ 52)) =
     (Inr [image_a, image_b], (seeded (2 ^ 52))\<lparr>pos := 1\<rparr>)"
    by (simp add: prod_eq_iff seeded_def)
  from first second show ?thesis ..
qed

section \<open>ToTensor\<close>

lemma store_frame_ok:
  assumes buf: "shape np_clip = [C, T, H, W]" and idx: "img_idx < T"
    and f: "frame_dims f = Some (H, W)" "frame_channels f = C" "is_image f \<longrightarrow> C \<noteq> 1"
  shows "\<exists>np_clip'. store_frame np_clip img_idx f = Inr np_clip' \<and>
           shape np_clip' = [C, T, H, W] \<and>
           (\<forall>c t y x. t \<noteq> img_idx \<longrightarrow> item np_clip' [c, t, y, x] = item np_clip [c, t, y, x]) \<and>
           (\<forall>c<C. \<forall>y<H. \<forall>x<W.
              item np_clip' [c, img_idx, y, x] = frame_value f y (W - 1 - x) c)"
proof -
  have nidx: "\<not> T \<le> img_idx" using idx by simp
  show ?thesis
  proof (cases f)
    case (NdArray a)
    with f have sh: "shape a = [H, W, C]" by (auto split: list.splits)
    show ?thesis
      unfolding NdArray
      by (auto simp: sh buf nidx store_frame_def convert_img_def reversed_axis2_def
          setitem_frame_def)
  next
    case (PILImage p)
    with f have p: "size_pil p = (W, H)" "bands p = C" "C \<noteq> 1" by (auto simp: prod_eq_iff)
    show ?thesis
      unfolding PILImage using p(3)
      by (auto simp: p(1,2) buf nidx store_frame_def np_array_of_image_def convert_img_def
          reversed_axis2_def setitem_frame_def)
  next
    case OtherObject
    with f show ?thesis by simp
  qed
qed

lemma fill_clip_frames:
  assumes "shape np_clip = [C, T, H, W]" and "img_idx + length frames \<le> T"
    and "\<forall>f\<in>set frames. frame_dims f = Some (H, W) \<and> frame_channels f = C \<and> (is_image f \<longrightarrow> C \<noteq> 1)"
  shows "\<exists>np_clip'. fill_clip np_clip img_idx frames = Inr np_clip' \<and>
           shape np_clip' = [C, T, H, W] \<and>
           (\<forall>c t y x. t < img_idx \<longrightarrow> item np_clip' [c, t, y, x] = item np_clip [c, t, y, x]) \<and>
           (\<forall>j<length frames. \<forall>c<C. \<forall>y<H. \<forall>x<W.
              item np_clip' [c, img_idx + j, y, x] = frame_value (frames ! j) y (W - 1 - x) c)"
  using assms
proof (induction frames arbitrary: np_clip img_idx)
  case Nil
  then show ?case by simp
next
  case (Cons f rest)
  from Cons.prems have idx: "img_idx < T" and f: "frame_dims f = Some (H, W)"
    "frame_channels f = C" "is_image f \<longrightarrow> C \<noteq> 1" by auto
  from store_frame_ok [OF Cons.prems(1) idx f]
  obtain b where b: "store_frame np_clip img_idx f = Inr b"
    "shape b = [C, T, H, W]"
    "\<forall>c t y x. t \<noteq> img_idx \<longrightarrow> item b [c, t, y, x] = item np_clip [c, t, y, x]"
    "\<forall>c<C. \<forall>y<H. \<forall>x<W. item b [c, img_idx, y, x] = frame_value f y (W - 1 - x) c"
    by blast
  from Cons.prems have "Suc img_idx + length rest \<le> T"
    "\<forall>f\<in>set rest. frame_dims f = Some (H, W) \<and> frame_channels f = C \<and> (is_image f \<longrightarrow> C \<noteq> 1)"
    by auto
  from Cons.IH [OF b(2) this]
  obtain b' where b': "fill_clip b (Suc img_idx) rest = Inr b'" "shape b' = [C, T, H, W]"
    "\<forall>c t y x. t < Suc img_idx \<longrightarrow> item b' [c, t, y, x] = item b [c, t, y, x]"
    "\<forall>j<length rest. \<forall>c<C. \<forall>y<H. \<forall>x<W.
        item b' [c, Suc img_idx + j, y, x] = frame_value (rest ! j) y (W - 1 - x) c"
    by blast
  have old: "\<forall>c t y x. t < img_idx \<longrightarrow> item b' [c, t, y, x] = item np_clip [c, t, y, x]"
    using b(3) b'(3) by simp
  have new: "\<forall>j<length (f # rest). \<forall>c<C. \<forall>y<H. \<forall>x<W.
      item b' [c, img_idx + j, y, x] = frame_value ((f # rest) ! j) y (W - 1 - x) c"
  proof (intro allI impI)
    fix j c y x assume j: "j < length (f # rest)" and c: "c < C" and y: "y < H" and x: "x < W"
    show "item b' [c, img_idx + j, y, x] = frame_value ((f # rest) ! j) y (W - 1 - x) c"
    proof (cases j)
      case 0
      then show ?thesis using b'(3) b(4) c y x by simp
    next
      case (Suc k)
      then show ?thesis using b'(4) j c y x by simp
    qed
  qed
  from b(1) b'(1,2) old new show ?case by simp
qed

lemma ToTensor_call_values:
  assumes "clip \<noteq> []"
    and "\<forall>f\<in>set clip. frame_dims f = Some (H, W) \<and> frame_channels f = channel_nb self \<and>
           (is_image f \<longrightarrow> channel_nb self \<noteq> 1)"
  shows "\<exists>t. ToTensor_call self clip = Inr t \<and>
           shape t = [channel_nb self, length clip, H, W] \<and>
           (\<forall>j<length clip. \<forall>c<channel_nb self. \<forall>y<H. \<forall>x<W.
              item t [c, j, y, x] = frame_value (clip ! j) y (W - 1 - x) c / 255)"
proof -
  from assms(1) obtain first rest where clip: "clip = first # rest" by (cases clip) auto
  have first: "frame_dims first = Some (H, W)" "frame_channels first = channel_nb self"
    using assms(2) clip by auto
  have "shape (np_zeros [channel_nb self, length clip, H, W]) = [channel_nb self, length clip, H, W]"
    by (simp add: np_zeros_def)
  from fill_clip_frames [OF this _ assms(2), of 0]
  obtain b where b: "fill_clip (np_zeros [channel_nb self, length clip, H, W]) 0 clip = Inr b"
    "shape b = [channel_nb self, length clip, H, W]"
    "\<forall>j<length clip. \<forall>c<channel_nb self. \<forall>y<H. \<forall>x<W.
        item b [c, j, y, x] = frame_value (clip ! j) y (W - 1 - x) c"
    by auto
  have "ToTensor_call self clip = Inr (tensor_div b 255)"
  proof (cases first)
    case (NdArray a)
    with first have "shape a = [H, W, channel_nb self]" by (auto split: list.splits)
    with b(1) show ?thesis unfolding ToTensor_call_def clip NdArray
      by (simp del: fill_clip.simps)
  next
    case (PILImage p)
    with first have "size_pil p = (W, H)" by (auto simp: prod_eq_iff)
    with b(1) show ?thesis unfolding ToTensor_call_def clip PILImage
      by (simp del: fill_clip.simps)
  next
    case OtherObject
    with first show ?thesis by simp
  qed
  with b(2,3) show ?thesis by (simp add: tensor_div_def)
qed

text \<open>
  C2, at a clip of one frame of one row and two columns, with the channels 1, 2, 3 and
  4, 5, 6. ToTensor returns a tensor of shape (3, 1, 1, 2). At channel 0, time 0, row 0
  and column 0 its value is 4 / 255: channel 0 of the frame's column 1. The value of the
  frame's channel 2 at column 0, that a reversal of the channels would give, is 3 / 255.
\<close>

theorem ToTensor_call_reverses_columns:
  "\<exists>t. ToTensor_call \<lparr>channel_nb = 3\<rparr> [frame_a] = Inr t \<and>
       shape t = [3, 1, 1, 2] \<and>
       item t [0, 0, 0, 0] = 4 / 255 \<and> item t [0, 0, 0, 1] = 1 / 255 \<and>
       item t [2, 0, 0, 0] = 6 / 255 \<and> item t [2, 0, 0, 1] = 3 / 255"
  by (simp add: ToTensor_call_def frame_a_def np_array_def np_zeros_def store_frame_def
      convert_img_def reversed_axis2_def setitem_frame_def tensor_div_def)

end
